theory Spec2Isabelle
  imports Main
begin

section \<open>Python strings and dictionaries\<close>

text \<open>
  The builder (\<^verbatim>\<open>getmethatdawg/builder.py\<close>) works on Python \<^verbatim>\<open>str\<close> values and on
  insertion-ordered \<^verbatim>\<open>dict\<close>s. Text is modelled as \<^typ>\<open>string\<close>, one \<^typ>\<open>char\<close> per ASCII
  character (the emoji of the generated files are spelled as their UTF-8 bytes); the case
  conversions are the ASCII ones. A dictionary is an association list in insertion order whose
  keys are kept distinct by \<open>dict_set\<close>.
\<close>

definition ascii_uppercase :: string where
  "ascii_uppercase = ''ABCDEFGHIJKLMNOPQRSTUVWXYZ''"

definition ascii_lowercase :: string where
  "ascii_lowercase = ''abcdefghijklmnopqrstuvwxyz''"

definition lower_chr :: "char \<Rightarrow> char" where
  "lower_chr c = (case map_of (zip ascii_uppercase ascii_lowercase) c of Some d \<Rightarrow> d | None \<Rightarrow> c)"

definition upper_chr :: "char \<Rightarrow> char" where
  "upper_chr c = (case map_of (zip ascii_lowercase ascii_uppercase) c of Some d \<Rightarrow> d | None \<Rightarrow> c)"

text \<open>\<^verbatim>\<open>s.lower()\<close> and \<^verbatim>\<open>s.upper()\<close>.\<close>

definition lower :: "string \<Rightarrow> string" where
  "lower s = map lower_chr s"

definition upper :: "string \<Rightarrow> string" where
  "upper s = map upper_chr s"

text \<open>The ASCII characters for which \<^verbatim>\<open>str.isspace\<close> holds: these are what \<^verbatim>\<open>strip()\<close> removes.\<close>

definition isspace :: "char \<Rightarrow> bool" where
  "isspace c = (c \<in> set [CHR 0x09, CHR 0x0A, CHR 0x0B, CHR 0x0C, CHR 0x0D,
                          CHR 0x1C, CHR 0x1D, CHR 0x1E, CHR 0x1F, CHR 0x20])"

definition lstrip_by :: "(char \<Rightarrow> bool) \<Rightarrow> string \<Rightarrow> string" where
  "lstrip_by P s = dropWhile P s"

definition rstrip_by :: "(char \<Rightarrow> bool) \<Rightarrow> string \<Rightarrow> string" where
  "rstrip_by P s = rev (dropWhile P (rev s))"

text \<open>\<^verbatim>\<open>s.strip()\<close>, \<^verbatim>\<open>s.lstrip()\<close> and \<^verbatim>\<open>s.strip(c)\<close> for a one-character argument.\<close>

definition strip :: "string \<Rightarrow> string" where
  "strip s = lstrip_by isspace (rstrip_by isspace s)"

definition lstrip :: "string \<Rightarrow> string" where
  "lstrip s = lstrip_by isspace s"

definition strip_chr :: "char \<Rightarrow> string \<Rightarrow> string" where
  "strip_chr c s = lstrip_by (\<lambda>x. x = c) (rstrip_by (\<lambda>x. x = c) s)"

text \<open>\<^verbatim>\<open>s.startswith(p)\<close>.\<close>

definition startswith :: "string \<Rightarrow> string \<Rightarrow> bool" where
  "startswith s p = (take (length p) s = p)"

text \<open>\<^verbatim>\<open>p in s\<close> for strings: \<open>p\<close> occurs in \<open>s\<close> as a contiguous substring.\<close>

fun contains :: "string \<Rightarrow> string \<Rightarrow> bool" where
  "contains [] p = (p = [])"
| "contains (c # cs) p = (startswith (c # cs) p \<or> contains cs p)"

text \<open>\<^verbatim>\<open>s.replace(old, new)\<close> for a one-character \<open>old\<close>.\<close>

definition replace_chr :: "char \<Rightarrow> string \<Rightarrow> string \<Rightarrow> string" where
  "replace_chr old new s = concat (map (\<lambda>c. if c = old then new else [c]) s)"

text \<open>
  \<^verbatim>\<open>s.split(sep)[0]\<close>: the part of \<open>s\<close> before the first occurrence of \<open>sep\<close> (all of \<open>s\<close>
  when \<open>sep\<close> does not occur); \<open>sep\<close> is never empty in the builder.
\<close>

fun split_head :: "string \<Rightarrow> string \<Rightarrow> string" where
  "split_head sep [] = []"
| "split_head sep (c # cs) = (if startswith (c # cs) sep then [] else c # split_head sep cs)"

text \<open>\<^verbatim>\<open>s.split(c, 1)\<close> for a character \<open>c\<close> that occurs in \<open>s\<close>: the two parts around its first occurrence.\<close>

definition split_once :: "char \<Rightarrow> string \<Rightarrow> string \<times> string" where
  "split_once c s = (takeWhile (\<lambda>x. x \<noteq> c) s, drop 1 (dropWhile (\<lambda>x. x \<noteq> c) s))"

type_synonym 'v dict = "(string \<times> 'v) list"

text \<open>\<^verbatim>\<open>d[k] = v\<close>: an existing key keeps its position, a new key goes to the end.\<close>

fun dict_set :: "string \<Rightarrow> 'v \<Rightarrow> 'v dict \<Rightarrow> 'v dict" where
  "dict_set k v [] = [(k, v)]"
| "dict_set k v ((k', v') # d) = (if k' = k then (k', v) # d else (k', v') # dict_set k v d)"


text \<open>\<^verbatim>\<open>d.get(k)\<close>.\<close>

definition dict_get :: "'v dict \<Rightarrow> string \<Rightarrow> 'v option" where
  "dict_get d k = map_of d k"

section \<open>The configuration source\<close>

text \<open>
  \<^verbatim>\<open>_read_env_file\<close> visits four candidate paths in order and reads the first one that
  exists. A candidate is absent, or is read to its end (the lines as the file iterator yields
  them), or raises while it is read, after the lines given.
\<close>

datatype env_file = Absent | Readable "string list" | Failing "string list"

text \<open>The key and the value that the loop body computes for a line with an \<^verbatim>\<open>=\<close>.\<close>

definition env_key :: "string \<Rightarrow> string" where
  "env_key raw = strip (fst (split_once CHR ''='' (strip raw)))"

definition env_value :: "string \<Rightarrow> string" where
  \<open>env_value raw = strip_chr (CHR 0x27) (strip_chr CHR ''"'' (strip (snd (split_once CHR ''='' (strip raw)))))\<close>

text \<open>One iteration of \<^verbatim>\<open>for line in f\<close>.\<close>

definition read_env_line :: "string \<Rightarrow> string dict \<Rightarrow> string dict" where
  "read_env_line raw env_vars =
     (let line = strip raw in
      if line \<noteq> [] \<and> \<not> startswith line ''#'' then
        if CHR ''='' \<in> set line then
          if env_key raw \<noteq> [] \<and> env_value raw \<noteq> [] then dict_set (env_key raw) (env_value raw) env_vars
          else env_vars
        else env_vars
      else env_vars)"

fun read_env_lines :: "string list \<Rightarrow> string dict \<Rightarrow> string dict" where
  "read_env_lines [] env_vars = env_vars"
| "read_env_lines (raw # rest) env_vars = read_env_lines rest (read_env_line raw env_vars)"

text \<open>
  The loop over the search paths: a file read to its end ends the search (\<^verbatim>\<open>break\<close>); a file
  that raises keeps the entries read so far and the search goes on (\<^verbatim>\<open>continue\<close>).
\<close>

fun read_env_paths :: "env_file list \<Rightarrow> string dict \<Rightarrow> string dict" where
  "read_env_paths [] env_vars = env_vars"
| "read_env_paths (Absent # ps) env_vars = read_env_paths ps env_vars"
| "read_env_paths (Readable ls # ps) env_vars = read_env_lines ls env_vars"
| "read_env_paths (Failing ls # ps) env_vars = read_env_paths ps (read_env_lines ls env_vars)"

definition read_env_file :: "env_file list \<Rightarrow> string dict" where
  "read_env_file search_paths = read_env_paths search_paths []"

section \<open>The configuration partition\<close>

definition secret_patterns :: "string list" where
  "secret_patterns =
     [''API_KEY'', ''TOKEN'', ''SECRET'', ''PASSWORD'', ''PRIVATE_KEY'', ''CREDENTIAL'',
      ''CLIENT_SECRET'', ''AUTH_KEY'', ''ACCESS_TOKEN'', ''REFRESH_TOKEN'']"

definition is_secret :: "string \<Rightarrow> bool" where
  "is_secret key = list_ex (\<lambda>pattern. contains (upper key) pattern) secret_patterns"

text \<open>The loop of \<^verbatim>\<open>_categorize_env_vars\<close> over \<^verbatim>\<open>env_vars.items()\<close>, on the pair (secrets, regular_env).\<close>

fun categorize_loop :: "string dict \<Rightarrow> string dict \<times> string dict \<Rightarrow> string dict \<times> string dict" where
  "categorize_loop [] acc = acc"
| "categorize_loop ((key, val) # rest) (secrets, regular_env) =
     (if is_secret key then categorize_loop rest (dict_set key val secrets, regular_env)
      else categorize_loop rest (secrets, dict_set key val regular_env))"

definition categorize_env_vars :: "string dict \<Rightarrow> string dict \<times> string dict" where
  "categorize_env_vars env_vars = categorize_loop env_vars ([], [])"

section \<open>The syntax tree of the source file\<close>

text \<open>
  \<^verbatim>\<open>ast.parse\<close> is Python's own parser; the builder only inspects its result. Of a tree, the
  builder reads the \<^verbatim>\<open>FunctionDef\<close> nodes (name, the names of \<^verbatim>\<open>args.args\<close>, the \<^verbatim>\<open>returns\<close>
  annotation and the body) and whether the first statement of a body is a string constant.
  Every other node is a \<open>Node\<close> with its children. The children of a \<^verbatim>\<open>FunctionDef\<close> that
  can hold a function definition are the statements of its body.
\<close>

datatype expr = Name string | Subscript expr | OtherExpr

datatype node =
    FunctionDef string "string list" "expr option" "node list"
  | ExprStr string
  | Node "node list"

fun children :: "node \<Rightarrow> node list" where
  "children (FunctionDef name args returns body) = body"
| "children (ExprStr s) = []"
| "children (Node cs) = cs"

text \<open>
  \<^verbatim>\<open>ast.walk\<close>: a queue of nodes, the first one is yielded and its children join the end of
  the queue (breadth first).
\<close>

function walk :: "node list \<Rightarrow> node list" where
  "walk [] = []"
| "walk (n # todo) = n # walk (todo @ children n)"
  by pat_completeness auto
termination
proof (relation "measure (size_list size)")
  show "wf (measure (size_list size))" by simp
next
  fix n :: node and todo :: "node list"
  have "size_list size (children n) < Suc (size n)"
    by (cases n) simp_all
  then show "(todo @ children n, n # todo) \<in> measure (size_list size)"
    by (simp add: size_list_append)
qed

declare walk.simps [simp del]

text \<open>All the nodes of a tree, the root included (depth first), to say where a node may sit.\<close>

fun subnodes :: "node \<Rightarrow> node list" where
  "subnodes (FunctionDef name args returns body) =
     FunctionDef name args returns body # concat (map subnodes body)"
| "subnodes (ExprStr s) = [ExprStr s]"
| "subnodes (Node cs) = Node cs # concat (map subnodes cs)"

section \<open>The heuristic strategy\<close>

record auto_detected_endpoint =
  ad_func_name :: string
  ad_path :: string
  ad_method :: string
  ad_params :: "string list"
  ad_return_type :: string
  ad_docstring :: string

text \<open>\<^verbatim>\<open>s.startswith((p1, p2, ...))\<close> with a tuple of prefixes.\<close>

definition startswith_any :: "string \<Rightarrow> string list \<Rightarrow> bool" where
  "startswith_any s ps = list_ex (\<lambda>p. startswith s p) ps"

definition derive_path :: "string \<Rightarrow> string" where
  "derive_path func_name = ''/'' @ replace_chr CHR ''_'' ''-'' (lower func_name)"

text \<open>\<^verbatim>\<open>_determine_http_method_and_path\<close>; \<open>None\<close> is its \<^verbatim>\<open>(None, None)\<close>.\<close>

definition determine_http_method_and_path ::
  "string \<Rightarrow> string list \<Rightarrow> string \<Rightarrow> string \<Rightarrow> (string \<times> string) option" where
  "determine_http_method_and_path func_name args return_type docstring =
     (let func_lower = lower func_name in
      if length args \<le> 1 \<and>
         (startswith_any func_lower [''get'', ''list'', ''show'', ''find'', ''search'', ''select'', ''load'']
          \<or> contains func_lower ''get'' \<or> contains func_lower ''search'' \<or> contains func_lower ''select'')
      then Some (''GET'', derive_path func_name)
      else if length args > 1
           \<or> startswith_any func_lower [''create'', ''add'', ''save'', ''update'', ''delete'', ''generate'',
                                           ''process'', ''handle'', ''execute'']
           \<or> contains func_lower ''save'' \<or> contains func_lower ''generate'' \<or> contains func_lower ''process''
      then Some (''POST'', derive_path func_name)
      else if return_type \<in> set [''Dict'', ''List'', ''dict'', ''list''] \<or> contains return_type ''Dict''
      then Some (if length args \<le> 1 then ''GET'' else ''POST'', derive_path func_name)
      else if length args > 0 \<and> length func_name > 3
      then Some (if length args = 1 then ''GET'' else ''POST'', derive_path func_name)
      else None)"

definition skip_patterns :: "string list" where
  "skip_patterns = [''main'', ''setup'', ''init'', ''test_'', ''validate'', ''parse'', ''format'',
                    ''print'', ''log'', ''debug'', ''error'', ''warn'']"

definition return_type_of :: "expr option \<Rightarrow> string" where
  "return_type_of returns =
     (case returns of
        Some (Name ident) \<Rightarrow> ident
      | Some (Subscript (Name ident)) \<Rightarrow> ident
      | _ \<Rightarrow> ''Any'')"

definition docstring_of :: "node list \<Rightarrow> string" where
  "docstring_of body = (case body of ExprStr s # rest \<Rightarrow> s | _ \<Rightarrow> [])"

text \<open>\<^verbatim>\<open>_analyze_function_for_endpoint\<close> on the fields of a \<^verbatim>\<open>FunctionDef\<close> node.\<close>

definition analyze_function_for_endpoint ::
  "string \<Rightarrow> string list \<Rightarrow> expr option \<Rightarrow> node list \<Rightarrow> auto_detected_endpoint option" where
  "analyze_function_for_endpoint func_name arg_names returns body =
     (if startswith func_name ''_'' then None
      else if list_ex (\<lambda>pattern. contains (lower func_name) pattern) skip_patterns then None
      else
        let args = filter (\<lambda>a. a \<noteq> ''self'') arg_names;
            return_type = return_type_of returns;
            docstring = docstring_of body
        in case determine_http_method_and_path func_name args return_type docstring of
             None \<Rightarrow> None
           | Some (method, path) \<Rightarrow>
               if method \<noteq> [] \<and> path \<noteq> [] then
                 Some \<lparr>ad_func_name = func_name, ad_path = path, ad_method = method,
                       ad_params = args, ad_return_type = return_type, ad_docstring = docstring\<rparr>
               else None)"

text \<open>The loop of \<^verbatim>\<open>auto_detect_endpoints\<close> over the walked nodes, appending to the builder's list.\<close>

fun detect_loop :: "node list \<Rightarrow> auto_detected_endpoint list \<Rightarrow> auto_detected_endpoint list" where
  "detect_loop [] acc = acc"
| "detect_loop (FunctionDef name args returns body # ns) acc =
     (case analyze_function_for_endpoint name args returns body of
        None \<Rightarrow> detect_loop ns acc
      | Some endpoint \<Rightarrow> detect_loop ns (acc @ [endpoint]))"
| "detect_loop (ExprStr s # ns) acc = detect_loop ns acc"
| "detect_loop (Node cs # ns) acc = detect_loop ns acc"

text \<open>
  \<^verbatim>\<open>auto_detect_endpoints\<close>: the parse result is \<open>None\<close> when \<^verbatim>\<open>ast.parse\<close> raises
  \<^verbatim>\<open>SyntaxError\<close>; the handler prints and returns, leaving the list as it was.
\<close>

definition auto_detect_endpoints ::
  "node option \<Rightarrow> auto_detected_endpoint list \<Rightarrow> auto_detected_endpoint list" where
  "auto_detect_endpoints parsed detected =
     (case parsed of None \<Rightarrow> detected | Some tree \<Rightarrow> detect_loop (walk [tree]) detected)"

text \<open>The loop body as a function of the node, and the names of the definitions it accepts.\<close>

fun analyze_node :: "node \<Rightarrow> auto_detected_endpoint option" where
  "analyze_node (FunctionDef name args returns body) = analyze_function_for_endpoint name args returns body"
| "analyze_node (ExprStr s) = None"
| "analyze_node (Node cs) = None"


text \<open>
  What the specification calls the extractor's result: the top-level function definitions of
  the module whose names do not start with an underscore.
\<close>

fun top_level_function_names :: "node \<Rightarrow> string list" where
  "top_level_function_names (Node stmts) =
     concat (map (\<lambda>n. case n of FunctionDef name args returns body \<Rightarrow> [name] | _ \<Rightarrow> []) stmts)"
| "top_level_function_names n = []"

definition spec_extracted_names :: "node \<Rightarrow> string list" where
  "spec_extracted_names tree = filter (\<lambda>name. \<not> startswith name ''_'') (top_level_function_names tree)"

section \<open>Endpoints and the registry of the declarative strategy\<close>

text \<open>
  \<^verbatim>\<open>Endpoint\<close> of \<^verbatim>\<open>getmethatdawg/__init__.py\<close>; the function object is represented by its
  \<^verbatim>\<open>__name__\<close>.
\<close>

record endpoint =
  func_name :: string
  http_method :: string
  path :: string
  auth :: "string option"

text \<open>
  One application of the decorator \<^verbatim>\<open>expose(method, path, auth)\<close> to a function: the
  arguments (\<open>ex_path = None\<close> when no path is given) and the name of the function.
\<close>

record expose_call =
  ex_method :: string
  ex_path :: "string option"
  ex_auth :: "string option"
  ex_func :: string

text \<open>The decorator builds the endpoint and \<^verbatim>\<open>EndpointRegistry.register\<close> appends it.\<close>

definition register :: "endpoint \<Rightarrow> endpoint list \<Rightarrow> endpoint list" where
  "register e reg = reg @ [e]"

definition expose :: "expose_call \<Rightarrow> endpoint list \<Rightarrow> endpoint list" where
  "expose call reg =
     register \<lparr>func_name = ex_func call, http_method = upper (ex_method call),
               path = (case ex_path call of Some p \<Rightarrow> p | None \<Rightarrow> ''/'' @ ex_func call),
               auth = ex_auth call\<rparr> reg"

fun expose_all :: "expose_call list \<Rightarrow> endpoint list \<Rightarrow> endpoint list" where
  "expose_all [] reg = reg"
| "expose_all (call # calls) reg = expose_all calls (expose call reg)"

section \<open>The builder and what it reads\<close>

datatype error = SyntaxError | CouldNotLoad | NoEndpointsFound | ModuleRaised string

text \<open>
  Everything a build reads from outside: the arguments of \<^verbatim>\<open>main\<close>, the source file (its
  lines, and the result of parsing it: \<open>None\<close> when it is not syntactically valid), whether the
  import machinery has a loader for the file, what executing a valid module does (it raises, or
  it returns after the given decorator applications), the candidate configuration files, the
  process environment's \<^verbatim>\<open>WANDB_API_KEY\<close>, the candidate dependency manifests (the text of
  each that exists) and the content of the process-wide registry before the build.
\<close>

record inputs =
  arg_original_name :: "string option"
  arg_auto_detect :: bool
  source_stem :: string
  source_lines :: "string list"
  source_ast :: "node option"
  has_loader :: bool
  module_run :: "error + expose_call list"
  env_search_paths :: "env_file list"
  getenv_wandb_api_key :: "string option"
  requirements_search_paths :: "string option list"
  registry :: "endpoint list"

record builder =
  original_name :: string
  auto_detect :: bool
  wandb_enabled :: bool
  endpoints :: "endpoint list"
  auto_detected_endpoints :: "auto_detected_endpoint list"

text \<open>\<^verbatim>\<open>bool(x)\<close> for an optional string.\<close>

definition truthy :: "string option \<Rightarrow> bool" where
  "truthy x = (case x of None \<Rightarrow> False | Some s \<Rightarrow> s \<noteq> [])"

definition is_wandb_enabled :: "inputs \<Rightarrow> bool" where
  "is_wandb_enabled inp =
     (truthy (dict_get (read_env_file (env_search_paths inp)) ''WANDB_API_KEY'')
      \<or> truthy (getenv_wandb_api_key inp))"

text \<open>\<^verbatim>\<open>__init__\<close>, as \<^verbatim>\<open>main\<close> calls it.\<close>

definition init_builder :: "inputs \<Rightarrow> builder" where
  "init_builder inp =
     \<lparr>original_name = (case arg_original_name inp of
                          Some name \<Rightarrow> if name \<noteq> [] then name else source_stem inp
                        | None \<Rightarrow> source_stem inp),
      auto_detect = arg_auto_detect inp,
      wandb_enabled = is_wandb_enabled inp,
      endpoints = [],
      auto_detected_endpoints = []\<rparr>"

text \<open>
  \<^verbatim>\<open>spec.loader.exec_module\<close>: the source is compiled first, so a file that is not
  syntactically valid raises \<^verbatim>\<open>SyntaxError\<close> before any of it runs.
\<close>

definition exec_module :: "inputs \<Rightarrow> error + expose_call list" where
  "exec_module inp = (case source_ast inp of None \<Rightarrow> Inl SyntaxError | Some tree \<Rightarrow> module_run inp)"

definition to_endpoint :: "auto_detected_endpoint \<Rightarrow> endpoint" where
  "to_endpoint a = \<lparr>func_name = ad_func_name a, http_method = ad_method a, path = ad_path a, auth = None\<rparr>"

definition analyze_source :: "inputs \<Rightarrow> builder \<Rightarrow> error + builder" where
  "analyze_source inp b =
     (if auto_detect b then
        let detected = auto_detect_endpoints (source_ast inp) (auto_detected_endpoints b)
        in Inr (b\<lparr>auto_detected_endpoints := detected,
                  endpoints := endpoints b @ map to_endpoint detected\<rparr>)
      else if \<not> has_loader inp then Inl CouldNotLoad
      else
        case exec_module inp of
          Inl e \<Rightarrow> Inl e
        | Inr calls \<Rightarrow>
            let registered = expose_all calls (registry inp)
            in if registered = [] then Inl NoEndpointsFound
               else Inr (b\<lparr>endpoints := registered\<rparr>))"

section \<open>Rendering the artifacts\<close>

text \<open>The files of the output directory, by name.\<close>

type_synonym files = "string \<rightharpoonup> string"

subsection \<open>The transformed source\<close>

text \<open>\<^verbatim>\<open>s.replace(old, new)\<close> for a non-empty \<open>old\<close>: the occurrences from left to right, not overlapping.\<close>

function replace :: "string \<Rightarrow> string \<Rightarrow> string \<Rightarrow> string" where
  "replace old new [] = []"
| "replace old new (c # cs) =
     (if old \<noteq> [] \<and> startswith (c # cs) old then new @ replace old new (drop (length old - 1) cs)
      else c # replace old new cs)"
  by pat_completeness auto
termination
  by (relation "measure (\<lambda>(old, new, s). length s)") auto

definition weave_import_line :: string where
  \<open>weave_import_line =
     ''import weave  # '' @ [CHR 0xF0, CHR 0x9F, CHR 0x90, CHR 0x9D] @ '' Added by getmethatdawg for observability\<newline>''\<close>

definition weave_op_line :: string where
  \<open>weave_op_line =
     ''@weave.op()  # '' @ [CHR 0xF0, CHR 0x9F, CHR 0x90, CHR 0x9D] @ '' Added by getmethatdawg for observability\<newline>''\<close>

definition is_endpoint_name :: "builder \<Rightarrow> string \<Rightarrow> bool" where
  "is_endpoint_name b name =
     (list_ex (\<lambda>e. ad_func_name e = name) (auto_detected_endpoints b)
      \<or> list_ex (\<lambda>e. func_name e = name) (endpoints b))"

text \<open>The lines that one iteration of the loop of \<^verbatim>\<open>copy_source_file\<close> appends.\<close>

definition process_line :: "builder \<Rightarrow> string \<Rightarrow> string list" where
  "process_line b line =
     (if \<not> auto_detect b \<and> (contains line ''import getmethatdawg'' \<or> contains line ''from getmethatdawg'')
      then []
      else if \<not> auto_detect b \<and> startswith (strip line) ''@getmethatdawg.expose'' then []
      else
        (if wandb_enabled b \<and> startswith (strip line) ''def '' \<and> \<not> startswith (strip line) ''def _''
            \<and> \<not> startswith (strip line) ''def __''
            \<and> is_endpoint_name b (replace ''def '' [] (split_head ''('' (strip line)))
         then [replicate (length line - length (lstrip line)) CHR '' '' @ weave_op_line]
         else [])
        @ [line])"

definition copy_source_content :: "inputs \<Rightarrow> builder \<Rightarrow> string" where
  "copy_source_content inp b =
     concat ((if wandb_enabled b then [weave_import_line] else [])
             @ concat (map (process_line b) (source_lines inp)))"

definition copy_source_file :: "inputs \<Rightarrow> builder \<Rightarrow> files \<Rightarrow> files" where
  "copy_source_file inp b out = out(''user_module.py'' \<mapsto> copy_source_content inp b)"

subsection \<open>The server entry point\<close>

definition weave_init_enabled :: string where
  \<open>weave_init_enabled =
     ''\<newline>'' @
     ''# '' @ [CHR 0xF0, CHR 0x9F, CHR 0x90, CHR 0x9D] @ '' Initialize weave for observability (getmethatdawg auto-generated)\<newline>'' @
     ''try:\<newline>'' @
     ''    import weave\<newline>'' @
     ''    weave.init('getmethatdawg')\<newline>'' @
     ''    print("'' @ [CHR 0xF0, CHR 0x9F, CHR 0x90, CHR 0x9D] @ '' Weave observability initialized for project 'getmethatdawg'")\<newline>'' @
     ''except ImportError:\<newline>'' @
     ''    print("'' @ [CHR 0xE2, CHR 0x9A, CHR 0xA0, CHR 0xEF, CHR 0xB8, CHR 0x8F] @ '' Weave not available - install with: pip install weave")\<newline>'' @
     ''except Exception as e:\<newline>'' @
     ''    print(f"'' @ [CHR 0xE2, CHR 0x9A, CHR 0xA0, CHR 0xEF, CHR 0xB8, CHR 0x8F] @ '' Failed to initialize weave: {e}")\<newline>''\<close>

definition flask_template_head :: string where
  \<open>flask_template_head =
     ''#!/usr/bin/env python3\<newline>'' @
     ''"""\<newline>'' @
     ''Generated Flask app by getmethatdawg builder\<newline>'' @
     ''"""\<newline>'' @
     ''\<newline>'' @
     ''import os\<newline>'' @
     ''import sys\<newline>'' @
     ''import inspect\<newline>'' @
     ''from flask import Flask, request, jsonify\<newline>'' @
     ''from pathlib import Path\<newline>'' @
     ''\<newline>'' @
     ''# Add the source directory to Python path\<newline>'' @
     ''sys.path.insert(0, '/app')\<newline>'' @
     ''\<newline>'' @
     ''# Import the user's module\<newline>'' @
     ''import user_module\<newline>''\<close>

definition flask_template_app :: string where
  \<open>flask_template_app =
     ''\<newline>'' @
     ''app = Flask(__name__)\<newline>'' @
     ''\<newline>'' @
     ''def extract_args_from_request(func, method):\<newline>'' @
     ''    """Extract function arguments from HTTP request"""\<newline>'' @
     ''    sig = inspect.signature(func)\<newline>'' @
     ''    args = {}\<newline>'' @
     ''    \<newline>'' @
     ''    for param_name, param in sig.parameters.items():\<newline>'' @
     ''        if method == 'GET':\<newline>'' @
     ''            # Get from query parameters\<newline>'' @
     ''            value = request.args.get(param_name)\<newline>'' @
     ''        else:\<newline>'' @
     ''            # Get from JSON body or form data\<newline>'' @
     ''            if request.is_json:\<newline>'' @
     ''                value = request.json.get(param_name) if request.json else None\<newline>'' @
     ''            else:\<newline>'' @
     ''                value = request.form.get(param_name)\<newline>'' @
     ''        \<newline>'' @
     ''        # Use default value if not provided\<newline>'' @
     ''        if value is None and param.default != inspect.Parameter.empty:\<newline>'' @
     ''            value = param.default\<newline>'' @
     ''        elif value is None:\<newline>'' @
     ''            # Required parameter is missing\<newline>'' @
     ''            return None, f"Missing required parameter: {param_name}"\<newline>'' @
     ''        \<newline>'' @
     ''        # Basic type conversion\<newline>'' @
     ''        if param.annotation != inspect.Parameter.empty:\<newline>'' @
     ''            try:\<newline>'' @
     ''                if param.annotation == int:\<newline>'' @
     ''                    value = int(value)\<newline>'' @
     ''                elif param.annotation == float:\<newline>'' @
     ''                    value = float(value)\<newline>'' @
     ''                elif param.annotation == bool:\<newline>'' @
     ''                    value = value.lower() in ('true', '1', 'yes', 'on')\<newline>'' @
     ''            except (ValueError, TypeError):\<newline>'' @
     ''                return None, f"Invalid type for parameter {param_name}: expected {param.annotation.__name__}"\<newline>'' @
     ''        \<newline>'' @
     ''        args[param_name] = value\<newline>'' @
     ''    \<newline>'' @
     ''    return args, None\<newline>'' @
     ''\<newline>''\<close>

definition route_code :: "endpoint \<Rightarrow> string" where
  \<open>route_code endpoint =
     ''\<newline>'' @
     ''@app.route('' @ [CHR 0x27] @ path endpoint @ [CHR 0x27] @ '', methods=['' @ [CHR 0x27] @ http_method endpoint @ [CHR 0x27] @ ''])\<newline>'' @
     ''def '' @ func_name endpoint @ ''_route():\<newline>'' @
     ''    """Route for '' @ func_name endpoint @ ''"""\<newline>'' @
     ''    try:\<newline>'' @
     ''        args, error = extract_args_from_request(user_module.'' @ func_name endpoint @ '', '' @ [CHR 0x27] @ http_method endpoint @ [CHR 0x27] @ '')\<newline>'' @
     ''        if error:\<newline>'' @
     ''            return jsonify({"error": error}), 400\<newline>'' @
     ''        \<newline>'' @
     ''        result = user_module.'' @ func_name endpoint @ ''('' @ ''**args)\<newline>'' @
     ''        \<newline>'' @
     ''        # Ensure result is JSON serializable\<newline>'' @
     ''        if isinstance(result, dict):\<newline>'' @
     ''            return jsonify(result)\<newline>'' @
     ''        else:\<newline>'' @
     ''            return jsonify({"result": result})\<newline>'' @
     ''    \<newline>'' @
     ''    except Exception as e:\<newline>'' @
     ''        return jsonify({"error": str(e)}), 500\<newline>''\<close>

definition flask_template_health :: string where
  \<open>flask_template_health =
     ''\<newline>'' @
     ''@app.route('/', methods=['GET'])\<newline>'' @
     ''def health_check():\<newline>'' @
     ''    """Health check endpoint"""\<newline>'' @
     ''    return jsonify({\<newline>'' @
     ''        "status": "healthy",\<newline>'' @
     ''        "service": "getmethatdawg-deployed-app",\<newline>'' @
     ''        "endpoints": [\<newline>''\<close>

definition health_entry :: "endpoint \<Rightarrow> string \<Rightarrow> string" where
  \<open>health_entry endpoint comma =
     ''            {"method": "'' @ http_method endpoint @ ''", "path": "'' @ path endpoint @ ''"}'' @ comma @ ''\<newline>''\<close>

definition flask_template_tail :: string where
  \<open>flask_template_tail =
     ''        ]\<newline>'' @
     ''    })\<newline>'' @
     ''\<newline>'' @
     ''if __name__ == '__main__':\<newline>'' @
     ''    port = int(os.environ.get('PORT', 5000))\<newline>'' @
     ''    app.run(host='0.0.0.0', port=port, debug=False)\<newline>''\<close>

definition flask_app_content :: "builder \<Rightarrow> string" where
  "flask_app_content b =
     flask_template_head @ (if wandb_enabled b then weave_init_enabled else []) @ flask_template_app
     @ concat (map route_code (endpoints b))
     @ flask_template_health
     @ concat (map (\<lambda>(i, e). health_entry e (if int i < int (length (endpoints b)) - 1 then '','' else []))
                   (enumerate 0 (endpoints b)))
     @ flask_template_tail"

definition generate_flask_app :: "builder \<Rightarrow> files \<Rightarrow> files" where
  "generate_flask_app b out = out(''flask_app.py'' \<mapsto> flask_app_content b)"

subsection \<open>The image definition\<close>

definition dockerfile_content :: string where
  \<open>dockerfile_content =
     ''FROM python:3.11-slim\<newline>'' @
     ''\<newline>'' @
     ''WORKDIR /app\<newline>'' @
     ''\<newline>'' @
     ''# Copy requirements and install dependencies\<newline>'' @
     ''COPY requirements.txt .\<newline>'' @
     ''RUN pip install --no-cache-dir -r requirements.txt\<newline>'' @
     ''\<newline>'' @
     ''# Copy the source file and generated Flask app\<newline>'' @
     ''COPY user_module.py .\<newline>'' @
     ''COPY flask_app.py .\<newline>'' @
     ''\<newline>'' @
     ''# Expose port\<newline>'' @
     ''EXPOSE 5000\<newline>'' @
     ''\<newline>'' @
     ''# Run the Flask app\<newline>'' @
     ''CMD ["python", "flask_app.py"]\<newline>''\<close>

definition generate_dockerfile :: "files \<Rightarrow> files" where
  "generate_dockerfile out = out(''Dockerfile'' \<mapsto> dockerfile_content)"

subsection \<open>The dependency manifest\<close>

text \<open>\<^verbatim>\<open>s.split(c)\<close> for a character and \<^verbatim>\<open>sep.join(xs)\<close>.\<close>

fun split_chr :: "char \<Rightarrow> string \<Rightarrow> string list" where
  "split_chr sep [] = [[]]"
| "split_chr sep (c # cs) =
     (if c = sep then [] # split_chr sep cs
      else case split_chr sep cs of p # ps \<Rightarrow> (c # p) # ps | [] \<Rightarrow> [[c]])"

fun join :: "string \<Rightarrow> string list \<Rightarrow> string" where
  "join sep [] = []"
| "join sep [x] = x"
| "join sep (x # y # ys) = x @ sep @ join sep (y # ys)"

definition essential_reqs :: "builder \<Rightarrow> string list" where
  "essential_reqs b = [''flask>=2.0.0'', ''gunicorn>=20.0.0''] @ (if wandb_enabled b then [''weave''] else [])"

definition existing_packages :: "string \<Rightarrow> string list" where
  "existing_packages custom_reqs =
     map (\<lambda>line. strip (lower (split_head ''<'' (split_head ''=='' (split_head ''>='' line)))))
         (filter (\<lambda>line. strip line \<noteq> [] \<and> \<not> startswith (strip line) ''#'')
                 (split_chr CHR 0x0A (strip custom_reqs)))"

fun add_missing :: "string list \<Rightarrow> string list \<Rightarrow> string \<Rightarrow> string" where
  "add_missing [] existing custom_reqs = custom_reqs"
| "add_missing (req # reqs) existing custom_reqs =
     (if lower (split_head ''>='' req) \<notin> set existing
      then add_missing reqs existing (custom_reqs @ [CHR 0x0A] @ req)
      else add_missing reqs existing custom_reqs)"

text \<open>The first candidate manifest that exists, if any.\<close>

fun first_existing :: "string option list \<Rightarrow> string option" where
  "first_existing [] = None"
| "first_existing (None # ps) = first_existing ps"
| "first_existing (Some text # ps) = Some text"

definition requirements_content :: "inputs \<Rightarrow> builder \<Rightarrow> string" where
  "requirements_content inp b =
     (case first_existing (requirements_search_paths inp) of
        Some custom_reqs \<Rightarrow> add_missing (essential_reqs b) (existing_packages custom_reqs) custom_reqs
      | None \<Rightarrow> join [CHR 0x0A] (essential_reqs b))"

definition generate_requirements :: "inputs \<Rightarrow> builder \<Rightarrow> files \<Rightarrow> files" where
  "generate_requirements inp b out = out(''requirements.txt'' \<mapsto> requirements_content inp b)"

subsection \<open>The secrets manifest\<close>

text \<open>
  \<^verbatim>\<open>json.dump(..., indent=2)\<close> of a dictionary with the secrets and a fixed instruction; a
  string is written between double quotes with the escapes of \<^verbatim>\<open>json\<close>'s ASCII encoder.
\<close>

definition hex_digit :: "nat \<Rightarrow> char" where
  "hex_digit n = ''0123456789abcdef'' ! (n mod 16)"

definition json_escape_chr :: "char \<Rightarrow> string" where
  \<open>json_escape_chr c =
     (if c = CHR ''"'' then [CHR 0x5C, CHR ''"'']
      else if c = CHR 0x5C then [CHR 0x5C, CHR 0x5C]
      else if c = CHR 0x08 then [CHR 0x5C, CHR ''b'']
      else if c = CHR 0x0C then [CHR 0x5C, CHR ''f'']
      else if c = CHR 0x0A then [CHR 0x5C, CHR ''n'']
      else if c = CHR 0x0D then [CHR 0x5C, CHR ''r'']
      else if c = CHR 0x09 then [CHR 0x5C, CHR ''t'']
      else if (of_char c :: nat) < 32 \<or> (of_char c :: nat) > 126
        then [CHR 0x5C, CHR ''u'', CHR ''0'', CHR ''0'', hex_digit (of_char c div 16), hex_digit (of_char c)]
      else [c])\<close>

definition json_string :: "string \<Rightarrow> string" where
  \<open>json_string s = [CHR ''"''] @ concat (map json_escape_chr s) @ [CHR ''"'']\<close>

definition secrets_json :: "string dict \<Rightarrow> string" where
  \<open>secrets_json secrets =
     ''{\<newline>'' @
     ''  "secrets": {\<newline>'' @
     join '',\<newline>'' (map (\<lambda>(key, val). ''    '' @ json_string key @ '': '' @ json_string val) secrets) @
     ''\<newline>'' @
     ''  },\<newline>'' @
     ''  "instructions": '' @ json_string (''Run 'flyctl secrets set' for each secret listed above'') @ ''\<newline>'' @
     ''}''\<close>

definition generate_secrets_file :: "string dict \<Rightarrow> files \<Rightarrow> files" where
  "generate_secrets_file env_vars out =
     (let secrets = fst (categorize_env_vars env_vars)
      in if secrets = [] then out else out(''secrets.json'' \<mapsto> secrets_json secrets))"

subsection \<open>The deployment script\<close>

definition script_head :: string where
  \<open>script_head =
     ''#!/bin/bash\<newline>'' @
     ''# Auto-generated deployment script for setting secrets\<newline>'' @
     ''set -euo pipefail\<newline>'' @
     ''\<newline>'' @
     ''echo "'' @ [CHR 0xF0, CHR 0x9F, CHR 0x94, CHR 0x90] @ '' Setting up secrets for deployment..."\<newline>'' @
     ''\<newline>''\<close>

definition stage_line :: "string \<Rightarrow> string \<Rightarrow> string" where
  \<open>stage_line key escaped_value =
     ''flyctl secrets set '' @ key @ ''='' @ [CHR 0x27] @ escaped_value @ [CHR 0x27] @ '' --stage\<newline>''\<close>

definition script_deploy_staged :: string where
  \<open>script_deploy_staged =
     ''\<newline>'' @
     ''echo "'' @ [CHR 0xE2, CHR 0x9C, CHR 0x85] @ '' All secrets staged. Deploying with secrets..."\<newline>'' @
     ''flyctl deploy --remote-only\<newline>''\<close>

definition script_deploy_plain :: string where
  \<open>script_deploy_plain =
     ''\<newline>'' @
     ''echo "'' @ [CHR 0xE2, CHR 0x84, CHR 0xB9] @ '' No secrets to set. Proceeding with normal deployment..."\<newline>'' @
     ''flyctl deploy --remote-only\<newline>''\<close>

text \<open>The loop over \<^verbatim>\<open>secrets.items()\<close>, appending to the script.\<close>

fun stage_loop :: "string dict \<Rightarrow> string \<Rightarrow> string" where
  "stage_loop [] script_content = script_content"
| \<open>stage_loop ((key, val) # rest) script_content =
     stage_loop rest
       (script_content @ stage_line key (replace_chr (CHR 0x27) ([CHR 0x27] @ ''"'"'' @ [CHR 0x27]) val))\<close>

definition deployment_script_content :: "string dict \<Rightarrow> string" where
  "deployment_script_content env_vars =
     (let secrets = fst (categorize_env_vars env_vars);
          script_content = stage_loop secrets script_head
      in if secrets \<noteq> [] then script_content @ script_deploy_staged
         else script_content @ script_deploy_plain)"

definition generate_deployment_script :: "string dict \<Rightarrow> files \<Rightarrow> files" where
  "generate_deployment_script env_vars out =
     out(''deploy-with-secrets.sh'' \<mapsto> deployment_script_content env_vars)"

subsection \<open>The deployment manifest\<close>

definition env_line :: "string \<Rightarrow> string \<Rightarrow> string" where
  \<open>env_line key val =
     ''  '' @ key @ '' = "'' @ val @ ''"\<newline>''\<close>

text \<open>The loop over \<^verbatim>\<open>regular_env.items()\<close>, appending to the environment section.\<close>

fun env_section_loop :: "string dict \<Rightarrow> string \<Rightarrow> string" where
  "env_section_loop [] env_section = env_section"
| "env_section_loop ((key, val) # rest) env_section =
     (if upper key \<notin> set [''PORT''] then env_section_loop rest (env_section @ env_line key val)
      else env_section_loop rest env_section)"

definition env_section_of :: "string dict \<Rightarrow> string" where
  \<open>env_section_of env_vars =
     env_section_loop (snd (categorize_env_vars env_vars)) (''  PORT = "5000"\<newline>'')\<close>

definition fly_toml_content :: "string \<Rightarrow> string \<Rightarrow> string" where
  \<open>fly_toml_content app_name env_section =
     ''# fly.toml - Generated by getmethatdawg\<newline>'' @
     ''app = "'' @ app_name @ ''"\<newline>'' @
     ''primary_region = "iad"\<newline>'' @
     ''\<newline>'' @
     ''[build]\<newline>'' @
     ''\<newline>'' @
     ''[env]\<newline>'' @ env_section @ ''\<newline>'' @
     ''\<newline>'' @
     ''[http_service]\<newline>'' @
     ''  internal_port = 5000\<newline>'' @
     ''  force_https = true\<newline>'' @
     ''  auto_stop_machines = true\<newline>'' @
     ''  auto_start_machines = true\<newline>'' @
     ''  min_machines_running = 0\<newline>'' @
     ''  processes = ["app"]\<newline>'' @
     ''\<newline>'' @
     ''['' @ ''[http_service.checks]'' @ '']\<newline>'' @
     ''  interval = "10s"\<newline>'' @
     ''  grace_period = "5s"\<newline>'' @
     ''  method = "GET"\<newline>'' @
     ''  path = "/"\<newline>'' @
     ''  protocol = "http"\<newline>'' @
     ''  timeout = "5s"\<newline>'' @
     ''  tls_skip_verify = false\<newline>'' @
     ''\<newline>'' @
     ''['' @ ''[vm]'' @ '']\<newline>'' @
     ''  memory = '512mb'\<newline>'' @
     ''  cpu_kind = 'shared'\<newline>'' @
     ''  cpus = 1\<newline>''\<close>

definition app_name_of :: "builder \<Rightarrow> string" where
  "app_name_of b = replace_chr CHR ''_'' ''-'' (original_name b)"

definition generate_fly_toml :: "inputs \<Rightarrow> builder \<Rightarrow> files \<Rightarrow> files" where
  "generate_fly_toml inp b out =
     (let env_vars = read_env_file (env_search_paths inp);
          out1 = generate_secrets_file env_vars out;
          out2 = generate_deployment_script env_vars out1
      in out2(''fly.toml'' \<mapsto> fly_toml_content (app_name_of b) (env_section_of env_vars)))"

section \<open>The build\<close>

text \<open>
  \<^verbatim>\<open>build\<close>: an exception of \<^verbatim>\<open>analyze_source\<close> ends it before anything is written;
  otherwise the five generators run in order. The result is the error or the builder at the
  end, and the files of the output directory. Writing a file succeeds, running the user's
  module does not touch the output directory, and the executable bit that
  \<^verbatim>\<open>generate_deployment_script\<close> sets on the script is not part of the state.
\<close>

definition build :: "inputs \<Rightarrow> builder \<Rightarrow> files \<Rightarrow> (error + builder) \<times> files" where
  "build inp b out =
     (case analyze_source inp b of
        Inl e \<Rightarrow> (Inl e, out)
      | Inr b' \<Rightarrow>
          (Inr b',
           generate_fly_toml inp b'
             (generate_requirements inp b'
               (generate_dockerfile
                 (generate_flask_app b'
                   (copy_source_file inp b' out))))))"

text \<open>One run of the build tool: a fresh builder, then \<^verbatim>\<open>build\<close>.\<close>

definition run_build :: "inputs \<Rightarrow> files \<Rightarrow> (error + builder) \<times> files" where
  "run_build inp out = build inp (init_builder inp) out"

section \<open>Some small builds\<close>

text \<open>
  A source file for the heuristic strategy, with the three functions
  \<^verbatim>\<open>get_user(id: int)\<close>, \<^verbatim>\<open>save_order(order_id: str, amount: float)\<close> and \<^verbatim>\<open>_helper()\<close>,
  and a configuration file with a credential, a plain entry and a port. The body of each
  function is one statement that holds no definition.
\<close>

definition example_auto :: inputs where
  \<open>example_auto =
     \<lparr>arg_original_name = None, arg_auto_detect = True, source_stem = ''my_agent'',
      source_lines =
        [''def get_user(id: int):\<newline>'',
         ''    return {"id": id}\<newline>'',
         ''def save_order(order_id: str, amount: float):\<newline>'',
         ''    return {"saved": order_id}\<newline>'',
         ''def _helper():\<newline>'',
         ''    pass\<newline>''],
      source_ast = Some (Node
        [FunctionDef ''get_user'' [''id''] None [Node []],
         FunctionDef ''save_order'' [''order_id'', ''amount''] None [Node []],
         FunctionDef ''_helper'' [] None [Node []]]),
      has_loader = True,
      module_run = Inr [],
      env_search_paths =
        [Absent, Readable [''OPENAI_API_KEY=sk-abc\<newline>'', ''DEBUG=1\<newline>'', ''PORT=8080\<newline>''],
         Absent, Absent],
      getenv_wandb_api_key = None,
      requirements_search_paths = [None, None],
      registry = []\<rparr>\<close>

text \<open>
  A source file for the declarative strategy: \<^verbatim>\<open>greet\<close> is exposed as \<open>GET /hello\<close> and
  \<^verbatim>\<open>echo\<close> with the decorator's defaults except for the method; no configuration file.
\<close>

definition example_declarative :: inputs where
  \<open>example_declarative =
     \<lparr>arg_original_name = None, arg_auto_detect = False, source_stem = ''my_agent'',
      source_lines =
        [''import getmethatdawg\<newline>'',
         ''@getmethatdawg.expose(method="GET", path="/hello")\<newline>'',
         ''def greet(name: str = "world"):\<newline>'',
         ''    return {"msg": name}\<newline>'',
         ''@getmethatdawg.expose(method="post")\<newline>'',
         ''def echo(message: str):\<newline>'',
         ''    return {"echo": message}\<newline>''],
      source_ast = Some (Node
        [Node [],
         FunctionDef ''greet'' [''name''] None [Node []],
         FunctionDef ''echo'' [''message''] None [Node []]]),
      has_loader = True,
      module_run = Inr
        [\<lparr>ex_method = ''GET'', ex_path = Some ''/hello'', ex_auth = None, ex_func = ''greet''\<rparr>,
         \<lparr>ex_method = ''post'', ex_path = None, ex_auth = None, ex_func = ''echo''\<rparr>],
      env_search_paths = [Absent, Absent, Absent, Absent],
      getenv_wandb_api_key = None,
      requirements_search_paths = [None, None],
      registry = []\<rparr>\<close>

text \<open>
  A declarative source file in which no function is exposed.
\<close>

definition example_no_endpoints :: inputs where
  \<open>example_no_endpoints =
     \<lparr>arg_original_name = None, arg_auto_detect = False, source_stem = ''my_agent'',
      source_lines =
        [''import getmethatdawg\<newline>'',
         ''def greet(name: str = "world"):\<newline>'',
         ''    return {"msg": name}\<newline>''],
      source_ast = Some (Node [Node [], FunctionDef ''greet'' [''name''] None [Node []]]),
      has_loader = True,
      module_run = Inr [],
      env_search_paths = [Absent, Absent, Absent, Absent],
      getenv_wandb_api_key = None,
      requirements_search_paths = [None, None],
      registry = []\<rparr>\<close>

text \<open>
  A source file that does not parse (the parameter list is not closed), built in auto-detect
  mode or in declarative mode.
\<close>

definition example_broken :: "bool \<Rightarrow> inputs" where
  \<open>example_broken auto =
     \<lparr>arg_original_name = None, arg_auto_detect = auto, source_stem = ''my_agent'',
      source_lines =
        [''def get_user(id: int:\<newline>'',
         ''    return {"id": id}\<newline>''],
      source_ast = None,
      has_loader = True,
      module_run = Inr [],
      env_search_paths = [Absent, Absent, Absent, Absent],
      getenv_wandb_api_key = None,
      requirements_search_paths = [None, None],
      registry = []\<rparr>\<close>



section \<open>Facts about strings and dictionaries\<close>















section \<open>Classification of configuration keys\<close>



section \<open>Lines of the configuration source with an empty value\<close>










lemma detect_loop_map_filter: "detect_loop ns acc = acc @ List.map_filter analyze_node ns"
  by (induction ns acc rule: detect_loop.induct) (simp_all add: List.map_filter_simps split: option.splits)

lemma subnodes_children: "set (subnodes n) = insert n (\<Union>c \<in> set (children n). set (subnodes c))"
  by (cases n) auto

lemma set_walk: "set (walk ns) = (\<Union>n \<in> set ns. set (subnodes n))"
proof (induction ns rule: walk.induct)
  case 1
  then show ?case by (simp add: walk.simps)
next
  case (2 n todo)
  have "set (walk (n # todo)) = insert n (set (walk (todo @ children n)))" by (simp add: walk.simps)
  also have "\<dots> = insert n ((\<Union>m \<in> set todo. set (subnodes m)) \<union> (\<Union>c \<in> set (children n). set (subnodes c)))"
    using 2 by simp
  also have "\<dots> = (\<Union>m \<in> set (n # todo). set (subnodes m))"
    using subnodes_children [of n] by auto
  finally show ?case .
qed

lemma analyze_accepts:
  assumes "analyze_function_for_endpoint name arg_names returns body = Some e"
  shows "ad_func_name e = name" and "ad_path e = derive_path name"
    and "\<not> startswith name ''_''" and "ad_method e = ''GET'' \<or> ad_method e = ''POST''"
  using assms
  by (auto simp: analyze_function_for_endpoint_def determine_http_method_and_path_def Let_def
           split: if_splits option.splits)

lemma analyze_node_accepts:
  assumes "analyze_node n = Some e"
  shows "\<exists>args returns body. n = FunctionDef (ad_func_name e) args returns body"
    and "ad_path e = derive_path (ad_func_name e)"
    and "\<not> startswith (ad_func_name e) ''_''"
  using assms analyze_accepts by (cases n; force)+

lemma auto_detect_map_filter:
  "auto_detect_endpoints (Some tree) detected = detected @ List.map_filter analyze_node (walk [tree])"
  by (simp add: auto_detect_endpoints_def detect_loop_map_filter)

lemma set_map_filter: "set (List.map_filter f xs) = {y. \<exists>x \<in> set xs. f x = Some y}"
  by (induction xs) (auto simp: List.map_filter_simps split: option.splits)

section \<open>Paths of the heuristic strategy\<close>



section \<open>Which function definitions are detected\<close>

text \<open>
  C5 as stated fails: a function defined inside another one is detected as well, so the list
  is not the list of the top-level definitions without the private ones.
\<close>

theorem extractor_top_level_only_counterexample:
  "map ad_func_name (auto_detect_endpoints
      (Some (Node [FunctionDef ''get_user'' [''id''] None [FunctionDef ''fetch_item'' [''x''] None []]])) [])
     = [''get_user'', ''fetch_item'']
   \<and> spec_extracted_names (Node [FunctionDef ''get_user'' [''id''] None [FunctionDef ''fetch_item'' [''x''] None []]])
     = [''get_user'']
   \<and> map ad_func_name (auto_detect_endpoints
      (Some (Node [FunctionDef ''get_user'' [''id''] None [FunctionDef ''fetch_item'' [''x''] None []]])) [])
     \<noteq> spec_extracted_names (Node [FunctionDef ''get_user'' [''id''] None [FunctionDef ''fetch_item'' [''x''] None []]])"
  by code_simp

text \<open>
  C5, amended. \<^verbatim>\<open>ast.walk\<close> visits every node of the tree, so the detected list holds, in
  breadth-first order, the accepted function definitions of any depth (top-level, nested,
  methods): each detected descriptor comes from a definition somewhere in the tree, each
  accepted definition of the tree is detected, and no detected name starts with an underscore.
\<close>

theorem auto_detect_all_function_definitions:
  "auto_detect_endpoints (Some tree) [] = List.map_filter analyze_node (walk [tree])
   \<and> set (walk [tree]) = set (subnodes tree)
   \<and> (\<forall>e \<in> set (auto_detect_endpoints (Some tree) []).
         \<not> startswith (ad_func_name e) ''_''
       \<and> (\<exists>args returns body. FunctionDef (ad_func_name e) args returns body \<in> set (subnodes tree)))
   \<and> (FunctionDef name args returns body \<in> set (subnodes tree)
        \<and> analyze_function_for_endpoint name args returns body = Some e
        \<longrightarrow> e \<in> set (auto_detect_endpoints (Some tree) []))"
proof -
  have w: "set (walk [tree]) = set (subnodes tree)"
    by (simp add: set_walk)
  have m: "auto_detect_endpoints (Some tree) [] = List.map_filter analyze_node (walk [tree])"
    by (simp add: auto_detect_map_filter)
  have p: "\<forall>e \<in> set (auto_detect_endpoints (Some tree) []).
         \<not> startswith (ad_func_name e) ''_''
       \<and> (\<exists>args returns body. FunctionDef (ad_func_name e) args returns body \<in> set (subnodes tree))"
  proof
    fix e assume "e \<in> set (auto_detect_endpoints (Some tree) [])"
    then obtain n where n: "n \<in> set (subnodes tree)" "analyze_node n = Some e"
      using w by (auto simp: m set_map_filter)
    from analyze_node_accepts [OF n(2)] n(1)
    show "\<not> startswith (ad_func_name e) ''_''
       \<and> (\<exists>args returns body. FunctionDef (ad_func_name e) args returns body \<in> set (subnodes tree))"
      by auto
  qed
  have q: "FunctionDef name args returns body \<in> set (subnodes tree)
        \<and> analyze_function_for_endpoint name args returns body = Some e
        \<longrightarrow> e \<in> set (auto_detect_endpoints (Some tree) [])"
  proof
    assume h: "FunctionDef name args returns body \<in> set (subnodes tree)
        \<and> analyze_function_for_endpoint name args returns body = Some e"
    then have "analyze_node (FunctionDef name args returns body) = Some e" by simp
    with h show "e \<in> set (auto_detect_endpoints (Some tree) [])"
      unfolding m set_map_filter w by blast
  qed
  show ?thesis using w m p q by blast
qed

theorem auto_detect_all_function_definitions_witness:
  "\<lparr>ad_func_name = ''fetch_item'', ad_path = ''/fetch-item'', ad_method = ''GET'',
       ad_params = [''x''], ad_return_type = ''Any'', ad_docstring = []\<rparr>
     \<in> set (auto_detect_endpoints
         (Some (Node [FunctionDef ''get_user'' [''id''] None [FunctionDef ''fetch_item'' [''x''] None []]])) [])"
proof -
  have n: "FunctionDef ''fetch_item'' [''x''] None []
      \<in> set (subnodes (Node [FunctionDef ''get_user'' [''id''] None [FunctionDef ''fetch_item'' [''x''] None []]]))"
    by simp
  have a: "analyze_function_for_endpoint ''fetch_item'' [''x''] None [] =
      Some \<lparr>ad_func_name = ''fetch_item'', ad_path = ''/fetch-item'', ad_method = ''GET'',
            ad_params = [''x''], ad_return_type = ''Any'', ad_docstring = []\<rparr>"
    by code_simp
  show ?thesis
    using auto_detect_all_function_definitions
      [of "Node [FunctionDef ''get_user'' [''id''] None [FunctionDef ''fetch_item'' [''x''] None []]]"
          "''fetch_item''" "[''x'']" None "[]"] n a
    by blast
qed





section \<open>The endpoint list of a build\<close>


lemma example_auto_flags: "arg_auto_detect example_auto" "\<not> arg_auto_detect example_declarative"
  "has_loader example_declarative"
  by (simp_all add: example_auto_def example_declarative_def)



section \<open>Facts about the build\<close>

lemma build_failure: "analyze_source inp b = Inl e \<Longrightarrow> build inp b out = (Inl e, out)"
  by (simp add: build_def)

lemma rendered_files:
  "generate_fly_toml inp b
     (generate_requirements inp b (generate_dockerfile (generate_flask_app b (copy_source_file inp b out))))
   = (\<lambda>f. if f = ''fly.toml''
            then Some (fly_toml_content (app_name_of b) (env_section_of (read_env_file (env_search_paths inp))))
          else if f = ''deploy-with-secrets.sh''
            then Some (deployment_script_content (read_env_file (env_search_paths inp)))
          else if f = ''secrets.json'' \<and> fst (categorize_env_vars (read_env_file (env_search_paths inp))) \<noteq> []
            then Some (secrets_json (fst (categorize_env_vars (read_env_file (env_search_paths inp)))))
          else if f = ''requirements.txt'' then Some (requirements_content inp b)
          else if f = ''Dockerfile'' then Some dockerfile_content
          else if f = ''flask_app.py'' then Some (flask_app_content b)
          else if f = ''user_module.py'' then Some (copy_source_content inp b)
          else out f)"
  by (rule ext)
     (simp add: generate_fly_toml_def generate_requirements_def generate_dockerfile_def
        generate_flask_app_def copy_source_file_def generate_secrets_file_def
        generate_deployment_script_def Let_def)

lemma build_success:
  "analyze_source inp b = Inr b' \<Longrightarrow>
   build inp b out =
     (Inr b', generate_fly_toml inp b'
        (generate_requirements inp b' (generate_dockerfile (generate_flask_app b' (copy_source_file inp b' out)))))"
  by (simp add: build_def)

lemma analyze_source_auto:
  "arg_auto_detect inp \<Longrightarrow>
   analyze_source inp (init_builder inp) =
     Inr ((init_builder inp)\<lparr>auto_detected_endpoints := auto_detect_endpoints (source_ast inp) [],
            endpoints := map to_endpoint (auto_detect_endpoints (source_ast inp) [])\<rparr>)"
  by (simp add: analyze_source_def init_builder_def Let_def)



lemma expose_all_empty: "expose_all calls reg = [] \<longleftrightarrow> calls = [] \<and> reg = []"
  by (induction calls arbitrary: reg) (simp_all add: expose_def register_def)





lemma run_build_success:
  assumes "analyze_source inp (init_builder inp) = Inr b"
  shows "run_build inp out =
     (Inr b,
      (\<lambda>f. if f = ''fly.toml''
            then Some (fly_toml_content (app_name_of b) (env_section_of (read_env_file (env_search_paths inp))))
          else if f = ''deploy-with-secrets.sh''
            then Some (deployment_script_content (read_env_file (env_search_paths inp)))
          else if f = ''secrets.json'' \<and> fst (categorize_env_vars (read_env_file (env_search_paths inp))) \<noteq> []
            then Some (secrets_json (fst (categorize_env_vars (read_env_file (env_search_paths inp)))))
          else if f = ''requirements.txt'' then Some (requirements_content inp b)
          else if f = ''Dockerfile'' then Some dockerfile_content
          else if f = ''flask_app.py'' then Some (flask_app_content b)
          else if f = ''user_module.py'' then Some (copy_source_content inp b)
          else out f))"
  using assms by (simp add: run_build_def build_success rendered_files)



section \<open>A declarative build without endpoints\<close>

text \<open>
  C9. In declarative mode, when the registry is empty after the module has run, the build
  ends with the no-endpoints error and the files of the output directory are what they were:
  nothing is written.
\<close>

theorem no_endpoints_build_fails:
  "\<not> arg_auto_detect inp \<and> has_loader inp \<and> source_ast inp = Some tree \<and> module_run inp = Inr calls
     \<and> expose_all calls (registry inp) = []
   \<longrightarrow> run_build inp out = (Inl NoEndpointsFound, out)"
  by (simp add: run_build_def build_def analyze_source_def init_builder_def exec_module_def)

theorem no_endpoints_build_fails_witness:
  "run_build example_no_endpoints Map.empty = (Inl NoEndpointsFound, Map.empty)"
  using no_endpoints_build_fails [of example_no_endpoints
      "Node [Node [], FunctionDef ''greet'' [''name''] None [Node []]]" "[]" Map.empty]
  by (simp add: example_no_endpoints_def)

section \<open>The environment table of the deployment manifest\<close>




section \<open>The deployment script and the secrets manifest\<close>




section \<open>A source file that does not parse\<close>

text \<open>
  C4 as stated fails in auto-detect mode: the build of a file that does not parse returns
  normally with no endpoint and writes the artifacts.
\<close>

theorem syntax_error_aborts_counterexample:
  "source_ast (example_broken True) = None
   \<and> map_sum id endpoints (fst (run_build (example_broken True) Map.empty)) = Inr []
   \<and> snd (run_build (example_broken True) Map.empty) ''flask_app.py''
       = Some (flask_template_head @ flask_template_app @ flask_template_health @ flask_template_tail)
   \<and> snd (run_build (example_broken True) Map.empty) ''Dockerfile'' = Some dockerfile_content
   \<and> snd (run_build (example_broken True) Map.empty) ''user_module.py''
       = Some (concat (source_lines (example_broken True)))"
proof -
  let ?inp = "example_broken True"
  let ?b = "(init_builder ?inp)\<lparr>auto_detected_endpoints := auto_detect_endpoints (source_ast ?inp) [],
            endpoints := map to_endpoint (auto_detect_endpoints (source_ast ?inp) [])\<rparr>"
  have a: "analyze_source ?inp (init_builder ?inp) = Inr ?b"
    by (rule analyze_source_auto) (simp add: example_broken_def)
  have s: "source_ast ?inp = None"
    by (simp add: example_broken_def)
  have w: "\<not> wandb_enabled (init_builder ?inp)"
    by code_simp
  have f: "flask_app_content ?b = flask_template_head @ flask_template_app @ flask_template_health @ flask_template_tail"
    using w by (simp add: flask_app_content_def auto_detect_endpoints_def s enumerate_eq_zip)
  have u: "copy_source_content ?inp ?b = concat (source_lines ?inp)"
    by code_simp
  show ?thesis
    using f u s by (simp add: run_build_success [OF a] auto_detect_endpoints_def)
qed

text \<open>
  C4, amended. For a source file that is not syntactically valid: in declarative mode the
  build ends with an error and writes nothing, and the error is the syntax error whenever the
  module can be loaded at all; in auto-detect mode the handler of \<open>auto_detect_endpoints\<close>
  swallows the error, nothing is detected, and the build goes on and renders the artifacts for
  the empty endpoint list.
\<close>

theorem syntax_error_handling:
  "source_ast inp = None \<longrightarrow>
     (\<not> arg_auto_detect inp \<longrightarrow>
        (\<exists>e. run_build inp out = (Inl e, out))
      \<and> (has_loader inp \<longrightarrow> run_build inp out = (Inl SyntaxError, out)))
   \<and> (arg_auto_detect inp \<longrightarrow>
        (\<exists>b. fst (run_build inp out) = Inr b \<and> endpoints b = [] \<and> auto_detected_endpoints b = []
           \<and> snd (run_build inp out) ''flask_app.py'' = Some (flask_app_content b)
           \<and> snd (run_build inp out) ''user_module.py'' = Some (copy_source_content inp b)))"
proof -
  have decl: "(\<exists>e. run_build inp out = (Inl e, out))
      \<and> (has_loader inp \<longrightarrow> run_build inp out = (Inl SyntaxError, out))"
    if "source_ast inp = None" "\<not> arg_auto_detect inp"
    using that
    by (simp add: run_build_def build_def analyze_source_def init_builder_def exec_module_def)
  have auto_: "\<exists>b. fst (run_build inp out) = Inr b \<and> endpoints b = [] \<and> auto_detected_endpoints b = []
           \<and> snd (run_build inp out) ''flask_app.py'' = Some (flask_app_content b)
           \<and> snd (run_build inp out) ''user_module.py'' = Some (copy_source_content inp b)"
    if "source_ast inp = None" "arg_auto_detect inp"
    using that
    by (simp add: run_build_def analyze_source_auto build_success rendered_files auto_detect_endpoints_def)
  from decl auto_ show ?thesis by blast
qed

theorem syntax_error_handling_witness:
  "run_build (example_broken False) Map.empty = (Inl SyntaxError, Map.empty)"
  using syntax_error_handling [of "example_broken False" Map.empty]
  by (simp add: example_broken_def)

section \<open>Reproducible builds\<close>

text \<open>
  C8. A run of the build tool is a function of its inputs: its outcome does not depend on what
  the output directory held, running it again on its own output changes nothing, and when
  it succeeds \<open>flask_app.py\<close>, \<open>Dockerfile\<close> and \<open>fly.toml\<close> hold the rendered texts, the same
  whatever the directory held before.
\<close>

theorem build_reproducible:
  "fst (run_build inp out') = fst (run_build inp out)
   \<and> run_build inp (snd (run_build inp out)) = run_build inp out
   \<and> (fst (run_build inp out) = Inr b \<longrightarrow>
         snd (run_build inp out) ''flask_app.py'' = Some (flask_app_content b)
       \<and> snd (run_build inp out') ''flask_app.py'' = Some (flask_app_content b)
       \<and> snd (run_build inp out) ''Dockerfile'' = Some dockerfile_content
       \<and> snd (run_build inp out') ''Dockerfile'' = Some dockerfile_content
       \<and> snd (run_build inp out) ''fly.toml''
            = Some (fly_toml_content (app_name_of b) (env_section_of (read_env_file (env_search_paths inp))))
       \<and> snd (run_build inp out') ''fly.toml''
            = Some (fly_toml_content (app_name_of b) (env_section_of (read_env_file (env_search_paths inp)))))"
proof (cases "analyze_source inp (init_builder inp)")
  case (Inl e)
  then have "run_build inp f = (Inl e, f)" for f
    by (simp add: run_build_def build_failure)
  then show ?thesis by simp
next
  case (Inr b')
  have idem: "run_build inp (snd (run_build inp out)) = run_build inp out"
    by (simp add: run_build_success [OF Inr] fun_eq_iff)
  show ?thesis
    using idem by (simp add: run_build_success [OF Inr])
qed

theorem build_reproducible_witness:
  "run_build example_auto (snd (run_build example_auto Map.empty)) = run_build example_auto Map.empty
   \<and> snd (run_build example_auto (snd (run_build example_auto Map.empty))) ''Dockerfile'' = Some dockerfile_content
   \<and> snd (run_build example_auto Map.empty) ''Dockerfile'' = Some dockerfile_content"
proof -
  let ?b = "(init_builder example_auto)\<lparr>auto_detected_endpoints := auto_detect_endpoints (source_ast example_auto) [],
            endpoints := map to_endpoint (auto_detect_endpoints (source_ast example_auto) [])\<rparr>"
  have a: "analyze_source example_auto (init_builder example_auto) = Inr ?b"
    by (rule analyze_source_auto) (simp add: example_auto_flags)
  have f: "fst (run_build example_auto Map.empty) = Inr ?b"
    by (simp add: run_build_def build_success [OF a])
  show ?thesis
    using build_reproducible [of example_auto "snd (run_build example_auto Map.empty)" Map.empty ?b] f
    by simp
qed

end
